theory Spec2Isabelle
  imports Complex_Main
begin

section \<open>The Defira connector (gateway/src/connectors/defira/defira.ts)\<close>

text \<open>
  The connector class \<open>Defira\<close> is embedded function by function. A method that can throw
  returns \<open>error + 'a\<close>, with \<open>Inl\<close> for the exception. Code that the class imports from
  other modules (validators, the configuration manager, the trade-math SDK, ethers, the
  chain client and its nonce manager) is not part of this file of the repository; such a
  collaborator is a field of a record of collaborators, and every theorem holds for all
  values of these fields. Calls to the logger are left out: they change nothing the
  connector reads.
\<close>

subsection \<open>Exceptions\<close>

datatype error =
    InitializationError string int   \<comment> \<open>message, error code\<close>
  | UniswapishPriceError string      \<comment> \<open>message\<close>
  | Error string                     \<comment> \<open>a plain JavaScript \<open>Error\<close> with its message\<close>
  | Thrown string                    \<comment> \<open>an exception raised inside a collaborator\<close>

subsection \<open>Strings\<close>

text \<open>\<open>String.prototype.split\<close> with a one-character separator: \<open>''''.split('/')\<close> is
  \<open>['''']\<close>, and a string with \<open>k\<close> separators has \<open>k + 1\<close> pieces.\<close>

fun split :: "char \<Rightarrow> string \<Rightarrow> string list" where
  "split sep [] = [[]]"
| "split sep (c # cs) =
     (if c = sep then [] # split sep cs
      else (case split sep cs of
              [] \<Rightarrow> [[c]]
            | p # ps \<Rightarrow> (c # p) # ps))"

text \<open>Reading an array by index: \<open>xs[i]\<close> is \<open>undefined\<close> (here \<open>None\<close>) out of range.\<close>

fun elementAt :: "'a list \<Rightarrow> nat \<Rightarrow> 'a option" where
  "elementAt [] i = None"
| "elementAt (x # xs) 0 = Some x"
| "elementAt (x # xs) (Suc i) = elementAt xs i"

definition isDigit :: "char \<Rightarrow> bool" where
  "isDigit c = (48 \<le> (of_char c :: nat) \<and> (of_char c :: nat) \<le> 57)"

definition digitValue :: "char \<Rightarrow> nat" where
  "digitValue c = of_char c - 48"

definition decimal :: "string \<Rightarrow> nat" where
  "decimal s = foldl (\<lambda>acc c. 10 * acc + digitValue c) 0 s"

definition isDecimalString :: "string \<Rightarrow> bool" where
  "isDecimalString s = (s \<noteq> [] \<and> list_all isDigit s)"

subsection \<open>Slippage tolerance\<close>

text \<open>\<open>UniswapPercent\<close> (class \<open>Percent\<close> of the trade-math SDK) is a fraction of two
  big integers.\<close>

record Percent =
  numerator :: int
  denominator :: int

text \<open>The value a tolerance stands for, when its denominator is not zero.\<close>

definition toRational :: "Percent \<Rightarrow> rat" where
  "toRational p = of_int (numerator p) / of_int (denominator p)"

text \<open>The collaborators of \<open>getAllowedSlippage\<close>:
  \<^item> \<open>isFractionString\<close> of services/validators;
  \<^item> \<open>percentRegexp\<close> of services/config-manager-v2, a pattern with two capture
    groups, as the function \<open>s.match(percentRegexp)\<close>: \<open>None\<close> for no match, else the
    strings of groups 1 and 2;
  \<^item> \<open>config_allowedSlippage\<close>, the string \<open>DefiraConfig.config.allowedSlippage()\<close>;
  \<^item> \<open>BigInt_other\<close>, what the big-integer constructor of the SDK does with a string
    that is not a plain run of decimal digits (on such a run it returns the number
    written there).\<close>

record slippage_env =
  isFractionString :: "string \<Rightarrow> bool"
  percentRegexp :: "string \<Rightarrow> (string \<times> string) option"
  config_allowedSlippage :: string
  BigInt_other :: "string \<Rightarrow> error + int"

definition parseBigintIsh :: "slippage_env \<Rightarrow> string \<Rightarrow> error + int" where
  "parseBigintIsh env s =
     (if isDecimalString s then Inr (int (decimal s)) else BigInt_other env s)"

text \<open>\<open>new UniswapPercent(n, d)\<close>. The constructor's second parameter has the default
  value one, which JavaScript also takes when the argument is \<open>undefined\<close>.\<close>

definition UniswapPercent :: "slippage_env \<Rightarrow> string \<Rightarrow> string option \<Rightarrow> error + Percent" where
  "UniswapPercent env n d =
     (case parseBigintIsh env n of
        Inl e \<Rightarrow> Inl e
      | Inr num \<Rightarrow>
          (case d of
             None \<Rightarrow> Inr \<lparr>numerator = num, denominator = 1\<rparr>
           | Some ds \<Rightarrow>
               (case parseBigintIsh env ds of
                  Inl e \<Rightarrow> Inl e
                | Inr den \<Rightarrow> Inr \<lparr>numerator = num, denominator = den\<rparr>)))"

definition malformedPercent :: string where
  "malformedPercent =
     ''Encountered a malformed percent string in the config for ALLOWED_SLIPPAGE.''"

text \<open>The fall-back of \<open>getAllowedSlippage\<close>: the configured default (lines 176 to 181).\<close>

definition configuredSlippage :: "slippage_env \<Rightarrow> error + Percent" where
  "configuredSlippage env =
     (case percentRegexp env (config_allowedSlippage env) of
        Some (n, d) \<Rightarrow> UniswapPercent env n (Some d)
      | None \<Rightarrow> Inl (Error malformedPercent))"

definition getAllowedSlippage :: "slippage_env \<Rightarrow> string option \<Rightarrow> error + Percent" where
  "getAllowedSlippage env allowedSlippageStr =
     (case allowedSlippageStr of
        None \<Rightarrow> configuredSlippage env
      | Some s \<Rightarrow>
          if isFractionString env s
          then (let fractionSplit = split (CHR ''/'') s
                in (case elementAt fractionSplit 0 of
                      None \<Rightarrow> Inl (Thrown ''TypeError'')
                    | Some n \<Rightarrow> UniswapPercent env n (elementAt fractionSplit 1)))
          else configuredSlippage env)"

subsection \<open>Tokens and the chain client\<close>

text \<open>An entry of the chain client's \<open>storedTokenList\<close>, and the SDK's token
  (\<open>UniswapToken\<close>), which adds the chain id. The token constructor is taken as total:
  the stored list holds token metadata the chain client has already loaded.\<close>

record TokenInfo =
  address :: string
  decimals :: nat
  symbol :: string
  name :: string

record UniswapToken = TokenInfo +
  chainId :: int

text \<open>What the connector reads from its chain client \<open>this.harmony\<close> during \<open>init\<close>:
  \<open>ready()\<close> and \<open>storedTokenList\<close>. The chain client is a shared object that other code
  changes; its state at the time of a call is an argument of the call.\<close>

record Harmony =
  Harmony_ready :: bool
  storedTokenList :: "TokenInfo list"

text \<open>The two constants of services/error-handler that \<open>init\<close> uses.\<close>

record error_handler =
  SERVICE_UNITIALIZED_ERROR_CODE :: int
  SERVICE_UNITIALIZED_ERROR_MESSAGE :: "string \<Rightarrow> string"

text \<open>The configuration read by the constructor (\<open>DefiraConfig.config\<close>) and the chain id
  of the chain client \<open>Harmony.getInstance(network)\<close>. The type \<open>'n\<close> stands for
  JavaScript numbers.\<close>

record 'n DefiraConfig =
  config_ttl :: 'n
  config_gasLimit :: 'n
  routerAddress :: "string \<Rightarrow> string"
  Harmony_chainId :: "string \<Rightarrow> int"

type_synonym ContractInterface = string

subsection \<open>The connector object\<close>

text \<open>The fields of a \<open>Defira\<close> object; a private field \<open>_x\<close> is \<open>p_x\<close>, and the field
  \<open>chainId\<close> is \<open>chainId_field\<close> (a token has a field of that name too). The field
  \<open>harmony\<close> refers to the chain client of a network and is kept as that network's
  name. \<open>tokenList\<close> is an object used as a dictionary from addresses to tokens: the map
  holds the object's own properties, whose keys are token addresses. The constructor
  takes the configuration and the ABI of the imported JSON file as arguments.\<close>

record 'n Defira =
  harmony :: string
  p_chain :: string
  p_router :: string
  p_factory :: "string option"
  p_routerAbi :: ContractInterface
  p_gasLimit :: 'n
  p_ttl :: 'n
  chainId_field :: int
  tokenList :: "string \<rightharpoonup> UniswapToken"
  p_ready :: bool

definition Defira_new ::
    "'n DefiraConfig \<Rightarrow> ContractInterface \<Rightarrow> string \<Rightarrow> string \<Rightarrow> 'n Defira" where
  "Defira_new config abi chain network =
     \<lparr>harmony = network,
      p_chain = chain,
      p_router = routerAddress config network,
      p_factory = None,
      p_routerAbi = abi,
      p_gasLimit = config_gasLimit config,
      p_ttl = config_ttl config,
      chainId_field = Harmony_chainId config network,
      tokenList = Map.empty,
      p_ready = False\<rparr>"

definition getTokenByAddress :: "'n Defira \<Rightarrow> string \<Rightarrow> UniswapToken option" where
  "getTokenByAddress this a = tokenList this a"

definition ready :: "'n Defira \<Rightarrow> bool" where
  "ready this = p_ready this"

definition newToken :: "int \<Rightarrow> TokenInfo \<Rightarrow> UniswapToken" where
  "newToken cid token =
     \<lparr>address = address token, decimals = decimals token, symbol = symbol token,
      name = name token, chainId = cid\<rparr>"

text \<open>The loop of \<open>init\<close> over the stored tokens, in order.\<close>

fun populate ::
    "int \<Rightarrow> TokenInfo list \<Rightarrow> (string \<rightharpoonup> UniswapToken) \<Rightarrow> (string \<rightharpoonup> UniswapToken)" where
  "populate cid [] tokens = tokens"
| "populate cid (token # rest) tokens =
     populate cid rest (tokens(address token \<mapsto> newToken cid token))"

text \<open>\<open>init\<close> returns its outcome and the object as the call leaves it.\<close>

definition init ::
    "error_handler \<Rightarrow> Harmony \<Rightarrow> 'n Defira \<Rightarrow> (error + unit) \<times> 'n Defira" where
  "init eh h this =
     (if p_chain this = ''harmony'' \<and> \<not> Harmony_ready h
      then (Inl (InitializationError (SERVICE_UNITIALIZED_ERROR_MESSAGE eh ''HMY'')
                   (SERVICE_UNITIALIZED_ERROR_CODE eh)), this)
      else (Inr (),
            this\<lparr>tokenList := populate (chainId_field this) (storedTokenList h) (tokenList this),
                 p_ready := True\<rparr>))"

text \<open>\<open>factory()\<close>: the router contract is asked once, through the collaborator \<open>ask\<close>
  (router address, ABI), and the answer is cached. \<open>!this._factory\<close> also holds for the
  empty string.\<close>

definition factory ::
    "(string \<Rightarrow> ContractInterface \<Rightarrow> error + string) \<Rightarrow> 'n Defira \<Rightarrow> (error + string) \<times> 'n Defira" where
  "factory ask this =
     (case p_factory this of
        Some f \<Rightarrow>
          if f \<noteq> [] then (Inr f, this)
          else (case ask (p_router this) (p_routerAbi this) of
                  Inl e \<Rightarrow> (Inl e, this)
                | Inr g \<Rightarrow> (Inr g, this\<lparr>p_factory := Some g\<rparr>))
      | None \<Rightarrow>
          (case ask (p_router this) (p_routerAbi this) of
             Inl e \<Rightarrow> (Inl e, this)
           | Inr g \<Rightarrow> (Inr g, this\<lparr>p_factory := Some g\<rparr>)))"

text \<open>A run of calls on one connector object: each \<open>init\<close> meets the chain client in some
  state, each \<open>factory()\<close> some answer of the router contract. The run returns the
  outcomes of the \<open>init\<close> calls and the object at the end. No other method of the class
  assigns a field.\<close>

datatype lifecycle_call =
    Init Harmony
  | Factory "string \<Rightarrow> ContractInterface \<Rightarrow> error + string"

fun lifecycle ::
    "error_handler \<Rightarrow> lifecycle_call list \<Rightarrow> 'n Defira \<Rightarrow> (error + unit) list \<times> 'n Defira" where
  "lifecycle eh [] this = ([], this)"
| "lifecycle eh (Init h # rest) this =
     (case init eh h this of
        (r, this') \<Rightarrow> (case lifecycle eh rest this' of (rs, this'') \<Rightarrow> (r # rs, this'')))"
| "lifecycle eh (Factory ask # rest) this =
     (case factory ask this of (r, this') \<Rightarrow> lifecycle eh rest this')"

subsection \<open>The registry of connector objects\<close>







subsection \<open>Quotes\<close>

text \<open>The trade-math SDK and the pair fetcher, as collaborators. Token amounts (\<open>'ta\<close>),
  pairs (\<open>'p\<close>) and trades (\<open>'t\<close>) are the SDK's own objects; \<open>'w\<close> is the state of the
  network that the provider reads. Each call returns or throws. A \<open>BigNumber\<close> is an
  integer.
  \<^item> \<open>UniswapTokenAmount t a\<close> is \<open>new UniswapTokenAmount(t, a.toString())\<close>;
  \<^item> \<open>fetchPairData a b w\<close> is \<open>UniswapFetcher.fetchPairData(a, b, this.harmony.provider)\<close>;
  \<^item> \<open>bestTradeExactIn\<close> and \<open>bestTradeExactOut\<close> are the static methods of the trade
    class, whose result is a list of trades, or is missing (\<open>None\<close>);
  \<^item> \<open>minimumAmountOut\<close> and \<open>maximumAmountIn\<close> are the methods of a trade.\<close>

record BestTradeOptions =
  maxHops :: nat

record ('ta, 'p, 't, 'w) sdk =
  UniswapTokenAmount :: "UniswapToken \<Rightarrow> int \<Rightarrow> error + 'ta"
  fetchPairData :: "UniswapToken \<Rightarrow> UniswapToken \<Rightarrow> 'w \<Rightarrow> error + 'p"
  bestTradeExactIn ::
    "'p list \<Rightarrow> 'ta \<Rightarrow> UniswapToken \<Rightarrow> BestTradeOptions \<Rightarrow> error + 't list option"
  bestTradeExactOut ::
    "'p list \<Rightarrow> UniswapToken \<Rightarrow> 'ta \<Rightarrow> BestTradeOptions \<Rightarrow> error + 't list option"
  minimumAmountOut :: "'t \<Rightarrow> Percent \<Rightarrow> error + 'ta"
  maximumAmountIn :: "'t \<Rightarrow> Percent \<Rightarrow> error + 'ta"

record ('t, 'ta) ExpectedTrade =
  trade :: 't
  expectedAmount :: 'ta

text \<open>A token inside a template literal, \<open>${baseToken}\<close>: the token class declares no
  \<open>toString\<close>, so the object is rendered by \<open>Object.prototype.toString\<close>.\<close>

definition toString :: "UniswapToken \<Rightarrow> string" where
  "toString token = ''[object Object]''"

definition estimateSellTrade ::
    "slippage_env \<Rightarrow> ('ta, 'p, 't, 'w) sdk \<Rightarrow> UniswapToken \<Rightarrow> UniswapToken \<Rightarrow> int \<Rightarrow>
     string option \<Rightarrow> 'w \<Rightarrow> error + ('t, 'ta) ExpectedTrade" where
  "estimateSellTrade env lib baseToken quoteToken amount allowedSlippage w =
     (case UniswapTokenAmount lib baseToken amount of
        Inl e \<Rightarrow> Inl e
      | Inr nativeTokenAmount \<Rightarrow>
     (case fetchPairData lib quoteToken baseToken w of
        Inl e \<Rightarrow> Inl e
      | Inr pair \<Rightarrow>
     (case bestTradeExactIn lib [pair] nativeTokenAmount quoteToken \<lparr>maxHops = 1\<rparr> of
        Inl e \<Rightarrow> Inl e
      | Inr None \<Rightarrow>
          Inl (UniswapishPriceError
                (''priceSwapIn: no trade pair found for '' @ toString baseToken @ '' to ''
                   @ toString quoteToken @ ''.''))
      | Inr (Some []) \<Rightarrow>
          Inl (UniswapishPriceError
                (''priceSwapIn: no trade pair found for '' @ toString baseToken @ '' to ''
                   @ toString quoteToken @ ''.''))
      | Inr (Some (trade0 # _)) \<Rightarrow>
     (case getAllowedSlippage env allowedSlippage of
        Inl e \<Rightarrow> Inl e
      | Inr tolerance \<Rightarrow>
     (case minimumAmountOut lib trade0 tolerance of
        Inl e \<Rightarrow> Inl e
      | Inr expected \<Rightarrow> Inr \<lparr>trade = trade0, expectedAmount = expected\<rparr>)))))"

definition estimateBuyTrade ::
    "slippage_env \<Rightarrow> ('ta, 'p, 't, 'w) sdk \<Rightarrow> UniswapToken \<Rightarrow> UniswapToken \<Rightarrow> int \<Rightarrow>
     string option \<Rightarrow> 'w \<Rightarrow> error + ('t, 'ta) ExpectedTrade" where
  "estimateBuyTrade env lib quoteToken baseToken amount allowedSlippage w =
     (case UniswapTokenAmount lib baseToken amount of
        Inl e \<Rightarrow> Inl e
      | Inr nativeTokenAmount \<Rightarrow>
     (case fetchPairData lib quoteToken baseToken w of
        Inl e \<Rightarrow> Inl e
      | Inr pair \<Rightarrow>
     (case bestTradeExactOut lib [pair] quoteToken nativeTokenAmount \<lparr>maxHops = 1\<rparr> of
        Inl e \<Rightarrow> Inl e
      | Inr None \<Rightarrow>
          Inl (UniswapishPriceError
                (''priceSwapOut: no trade pair found for '' @ address quoteToken @ '' to ''
                   @ address baseToken @ ''.''))
      | Inr (Some []) \<Rightarrow>
          Inl (UniswapishPriceError
                (''priceSwapOut: no trade pair found for '' @ address quoteToken @ '' to ''
                   @ address baseToken @ ''.''))
      | Inr (Some (trade0 # _)) \<Rightarrow>
     (case getAllowedSlippage env allowedSlippage of
        Inl e \<Rightarrow> Inl e
      | Inr tolerance \<Rightarrow>
     (case maximumAmountIn lib trade0 tolerance of
        Inl e \<Rightarrow> Inl e
      | Inr expected \<Rightarrow> Inr \<lparr>trade = trade0, expectedAmount = expected\<rparr>)))))"

text \<open>A string names a token address when the address occurs in it.\<close>

fun startsWith :: "string \<Rightarrow> string \<Rightarrow> bool" where
  "startsWith s [] = True"
| "startsWith [] (c # cs) = False"
| "startsWith (x # xs) (c # cs) = (x = c \<and> startsWith xs cs)"

fun mentions :: "string \<Rightarrow> string \<Rightarrow> bool" where
  "mentions [] a = startsWith [] a"
| "mentions (x # xs) a = (startsWith (x # xs) a \<or> mentions xs a)"

subsection \<open>Execution\<close>

text \<open>The result of the router's call-parameter builder: method name, positional
  arguments (each a string or a list of strings) and the value to attach.\<close>

datatype arg = Str string | Arr "string list"

record SwapParameters =
  methodName :: string
  args :: "arg list"
  callValue :: string

record 'n TradeOptions =
  options_ttl :: 'n
  options_recipient :: string
  options_allowedSlippage :: Percent

record Wallet =
  wallet_address :: string

text \<open>The transaction options, the last argument of the contract call. A field of the
  object literal is there or not; the two fee fields hold what the caller gave, which
  may be \<open>undefined\<close> (\<open>None\<close>).\<close>

datatype 'a field = Absent | Present 'a

record 'n Overrides =
  tx_gasPrice :: "string field"
  tx_gasLimit :: string
  tx_value :: string
  tx_nonce :: 'n
  tx_maxFeePerGas :: "int option field"
  tx_maxPriorityFeePerGas :: "int option field"

text \<open>The collaborators of \<open>executeTrade\<close>. \<open>'w\<close> is the state of everything outside the
  connector: the network and the nonce manager of the chain client. An awaited call
  returns or throws, and leaves a new state.
  \<^item> \<open>number_times\<close>, \<open>number_toFixed\<close>, \<open>number_1e9\<close>: multiplication, \<open>toFixed\<close> and the
    literal \<open>1e9\<close> of JavaScript numbers;
  \<^item> \<open>swapCallParameters\<close>: the call-parameter builder of the router class;
  \<^item> \<open>getNonce\<close>, \<open>commitNonce\<close>: the methods of \<open>this.harmony.nonceManager\<close>;
  \<^item> \<open>contractCall router abi wallet method args overrides\<close>: the call
    \<open>contract[method](...args, overrides)\<close> on \<open>new Contract(router, abi, wallet)\<close>.\<close>

record ('n, 't, 'tx, 'w) exec_env =
  number_times :: "'n \<Rightarrow> 'n \<Rightarrow> 'n"
  number_toFixed :: "'n \<Rightarrow> nat \<Rightarrow> string"
  number_1e9 :: 'n
  swapCallParameters :: "'t \<Rightarrow> 'n TradeOptions \<Rightarrow> error + SwapParameters"
  getNonce :: "string \<Rightarrow> 'w \<Rightarrow> (error + 'n) \<times> 'w"
  commitNonce :: "string \<Rightarrow> 'n \<Rightarrow> 'w \<Rightarrow> (error + unit) \<times> 'w"
  contractCall ::
    "string \<Rightarrow> ContractInterface \<Rightarrow> Wallet \<Rightarrow> string \<Rightarrow> arg list \<Rightarrow> 'n Overrides \<Rightarrow> 'w \<Rightarrow>
     (error + 'tx) \<times> 'w"

text \<open>Every awaited call of \<open>executeTrade\<close> is recorded, in order, with its outcome.\<close>

datatype 'n call =
    GetNonce string
  | ContractCall string string "arg list" "'n Overrides"   \<comment> \<open>router, method, args, options\<close>
  | CommitNonce string 'n

datatype 'n event = Returned "'n call" | Threw "'n call"

record ('n, 'w) state =
  world :: 'w
  calls :: "'n event list"

definition observe ::
    "'n call \<Rightarrow> (error + 'a) \<times> 'w \<Rightarrow> ('n, 'w) state \<Rightarrow> (error + 'a) \<times> ('n, 'w) state" where
  "observe c outcome s =
     (fst outcome,
      \<lparr>world = snd outcome,
       calls = calls s @ [case fst outcome of Inl _ \<Rightarrow> Threw c | Inr _ \<Rightarrow> Returned c]\<rparr>)"

text \<open>The options of the two branches on the fee parameters (lines 325 to 340); both
  branches make the same contract call with them.\<close>

definition overrides ::
    "('n, 't, 'tx, 'w) exec_env \<Rightarrow> 'n \<Rightarrow> 'n \<Rightarrow> SwapParameters \<Rightarrow> 'n \<Rightarrow> int option \<Rightarrow> int option \<Rightarrow>
     'n Overrides" where
  "overrides env gasPrice gasLimit result nonce maxFeePerGas maxPriorityFeePerGas =
     (if maxFeePerGas \<noteq> None \<or> maxPriorityFeePerGas \<noteq> None
      then \<lparr>tx_gasPrice = Absent,
            tx_gasLimit = number_toFixed env gasLimit 0,
            tx_value = callValue result,
            tx_nonce = nonce,
            tx_maxFeePerGas = Present maxFeePerGas,
            tx_maxPriorityFeePerGas = Present maxPriorityFeePerGas\<rparr>
      else \<lparr>tx_gasPrice =
              Present (number_toFixed env (number_times env gasPrice (number_1e9 env)) 0),
            tx_gasLimit = number_toFixed env gasLimit 0,
            tx_value = callValue result,
            tx_nonce = nonce,
            tx_maxFeePerGas = Absent,
            tx_maxPriorityFeePerGas = Absent\<rparr>)"

text \<open>\<open>executeTrade\<close> takes the state before the call and returns its outcome and the
  state after it. The parameter \<open>trade\<close> of the source is \<open>trade1\<close> here.\<close>

definition executeTrade ::
    "slippage_env \<Rightarrow> ('n, 't, 'tx, 'w) exec_env \<Rightarrow> Wallet \<Rightarrow> 't \<Rightarrow> 'n \<Rightarrow> string \<Rightarrow> 'n \<Rightarrow>
     ContractInterface \<Rightarrow> 'n \<Rightarrow> 'n option \<Rightarrow> int option \<Rightarrow> int option \<Rightarrow> string option \<Rightarrow>
     ('n, 'w) state \<Rightarrow> (error + 'tx) \<times> ('n, 'w) state" where
  "executeTrade senv env wallet trade1 gasPrice defiraRouter ttl abi gasLimit nonce
       maxFeePerGas maxPriorityFeePerGas allowedSlippage s =
     (case getAllowedSlippage senv allowedSlippage of
        Inl e \<Rightarrow> (Inl e, s)
      | Inr tolerance \<Rightarrow>
     (case swapCallParameters env trade1
             \<lparr>options_ttl = ttl, options_recipient = wallet_address wallet,
              options_allowedSlippage = tolerance\<rparr> of
        Inl e \<Rightarrow> (Inl e, s)
      | Inr result \<Rightarrow>
     (case (case nonce of
              None \<Rightarrow>
                observe (GetNonce (wallet_address wallet))
                  (getNonce env (wallet_address wallet) (world s)) s
            | Some n \<Rightarrow> (Inr n, s)) of
        (Inl e, s1) \<Rightarrow> (Inl e, s1)
      | (Inr nonce1, s1) \<Rightarrow>
     (let options =
            overrides env gasPrice gasLimit result nonce1 maxFeePerGas maxPriorityFeePerGas
      in
     (case observe (ContractCall defiraRouter (methodName result) (args result) options)
             (contractCall env defiraRouter abi wallet (methodName result) (args result)
                options (world s1)) s1 of
        (Inl e, s2) \<Rightarrow> (Inl e, s2)
      | (Inr tx, s2) \<Rightarrow>
     (case observe (CommitNonce (wallet_address wallet) nonce1)
             (commitNonce env (wallet_address wallet) nonce1 (world s2)) s2 of
        (Inl e, s3) \<Rightarrow> (Inl e, s3)
      | (Inr u, s3) \<Rightarrow> (Inr tx, s3)))))))"

text \<open>The calls recorded between two states, and what they say about nonces: the
  addresses for which a nonce was obtained, the nonces committed, and the options of
  the contract calls.\<close>

definition made :: "('n, 'w) state \<Rightarrow> ('n, 'w) state \<Rightarrow> 'n event list" where
  "made s s' = drop (length (calls s)) (calls s')"

fun acquired :: "'n event list \<Rightarrow> string list" where
  "acquired [] = []"
| "acquired (Returned (GetNonce a) # es) = a # acquired es"
| "acquired (e # es) = acquired es"

fun committed :: "'n event list \<Rightarrow> (string \<times> 'n) list" where
  "committed [] = []"
| "committed (Returned (CommitNonce a n) # es) = (a, n) # committed es"
| "committed (e # es) = committed es"


section \<open>Collaborators for concrete runs\<close>

text \<open>The theorems below hold for all collaborators. To run the model on concrete inputs,
  this section fixes one choice of them.\<close>

text \<open>A validator and a pattern that accept two runs of decimal digits around one slash,
  and a big-integer constructor that rejects every other string.\<close>

definition fractionParts :: "string \<Rightarrow> (string \<times> string) option" where
  "fractionParts s =
     (case split (CHR ''/'') s of
        [n, d] \<Rightarrow> if isDecimalString n \<and> isDecimalString d then Some (n, d) else None
      | _ \<Rightarrow> None)"

definition sampleSlippage :: "string \<Rightarrow> slippage_env" where
  "sampleSlippage configured =
     \<lparr>isFractionString = (\<lambda>s. fractionParts s \<noteq> None),
      percentRegexp = fractionParts,
      config_allowedSlippage = configured,
      BigInt_other = (\<lambda>s. Inl (Thrown ''SyntaxError''))\<rparr>"

text \<open>Numbers as integers, written in decimal.\<close>

function showNat :: "nat \<Rightarrow> string" where
  "showNat n =
     (if n < 10 then [''0123456789'' ! n]
      else showNat (n div 10) @ [''0123456789'' ! (n mod 10)])"
  by pat_completeness auto
termination
  by (relation "measure id") auto

declare showNat.simps [simp del]

definition showInt :: "int \<Rightarrow> string" where
  "showInt i = (if i < 0 then CHR ''-'' # showNat (nat (- i)) else showNat (nat i))"

text \<open>A constant-product pool with a fee of three in a thousand: a pair is the reserves
  of the quote and of the base token, the network state is the pool (if there is one),
  a trade is its input and output amounts.\<close>

definition sampleSdk :: "(int, int \<times> int, int \<times> int, (int \<times> int) option) sdk" where
  "sampleSdk =
     \<lparr>UniswapTokenAmount =
        (\<lambda>token a. if 0 \<le> a then Inr a else Inl (Thrown ''Invariant failed'')),
      fetchPairData =
        (\<lambda>tokenA tokenB w.
           case w of None \<Rightarrow> Inl (Thrown ''call revert exception'') | Some p \<Rightarrow> Inr p),
      bestTradeExactIn =
        (\<lambda>pairs amountIn tokenOut options.
           Inr (Some (concat (map (\<lambda>(rq, rb).
             if 0 < amountIn \<and> 0 < amountIn * 997 * rq div (rb * 1000 + amountIn * 997)
             then [(amountIn, amountIn * 997 * rq div (rb * 1000 + amountIn * 997))]
             else []) pairs)))),
      bestTradeExactOut =
        (\<lambda>pairs tokenIn amountOut options.
           Inr (Some (concat (map (\<lambda>(rq, rb).
             if 0 < amountOut \<and> amountOut < rb
             then [(rq * amountOut * 1000 div ((rb - amountOut) * 997) + 1, amountOut)]
             else []) pairs)))),
      minimumAmountOut =
        (\<lambda>(i, out) tolerance.
           if denominator tolerance = 0 then Inl (Thrown ''Division by zero'')
           else Inr (out * denominator tolerance
                       div (denominator tolerance + numerator tolerance))),
      maximumAmountIn =
        (\<lambda>(i, out) tolerance.
           if denominator tolerance = 0 then Inl (Thrown ''Division by zero'')
           else Inr (i * (denominator tolerance + numerator tolerance)
                       div denominator tolerance))\<rparr>"

definition WONE :: UniswapToken where
  "WONE = \<lparr>address = ''0xcF664087a5bB0237a0BAd6742852ec6c8d69A27a'', decimals = 18,
           symbol = ''WONE'', name = ''Wrapped ONE'', chainId = 1666600000\<rparr>"

definition USDC :: UniswapToken where
  "USDC = \<lparr>address = ''0x985458E523dB3d53125813eD68c274899e9DfAb4'', decimals = 6,
           symbol = ''1USDC'', name = ''USD Coin'', chainId = 1666600000\<rparr>"

text \<open>A nonce manager that remembers the last committed nonce of each address and
  hands out the one above it, and a network that accepts a transaction when it is
  reachable.\<close>

record sample_world =
  watermark :: "string \<Rightarrow> int"
  reachable :: bool

definition sampleExec :: "(int, int \<times> int, string, sample_world) exec_env" where
  "sampleExec =
     \<lparr>number_times = (\<lambda>a b. a * b),
      number_toFixed = (\<lambda>x digits. showInt x),
      number_1e9 = 1000000000,
      swapCallParameters =
        (\<lambda>t options.
           Inr \<lparr>methodName = ''swapExactTokensForTokens'',
                args = [Str (showInt (fst t)), Str (showInt (snd t)),
                        Str (options_recipient options)],
                callValue = ''0x00''\<rparr>),
      getNonce = (\<lambda>a w. (Inr (watermark w a + 1), w)),
      commitNonce = (\<lambda>a n w. (Inr (), w\<lparr>watermark := (watermark w)(a := n)\<rparr>)),
      contractCall =
        (\<lambda>router abi wallet method as options w.
           if reachable w then (Inr ''0x5e1f'', w)
           else (Inl (Thrown ''could not detect network''), w))\<rparr>"

definition sampleWallet :: Wallet where
  "sampleWallet = \<lparr>wallet_address = ''0x7E5F4552091A69125d5DfCb7b8C2659029395Bdf''\<rparr>"

text \<open>The world before a call: the last committed nonce of every address is 4, and the
  network is reachable or not.\<close>

definition sampleState :: "bool \<Rightarrow> (int, sample_world) state" where
  "sampleState up = \<lparr>world = \<lparr>watermark = (\<lambda>a. 4), reachable = up\<rparr>, calls = []\<rparr>"

definition sampleConfig :: "int DefiraConfig" where
  "sampleConfig =
     \<lparr>config_ttl = 300,
      config_gasLimit = 3000000,
      routerAddress = (\<lambda>network. ''0x3C8BF7e25EbfAaFb863256A4380A8a93490d8065''),
      Harmony_chainId =
        (\<lambda>network. if network = ''mainnet'' then 1666600000 else 1666700000)\<rparr>"

definition sampleErrors :: error_handler where
  "sampleErrors =
     \<lparr>SERVICE_UNITIALIZED_ERROR_CODE = 1003,
      SERVICE_UNITIALIZED_ERROR_MESSAGE =
        (\<lambda>service. service @ '' was called before being initialized.'')\<rparr>"

text \<open>A chain client that has loaded one token and does not report itself ready.\<close>

definition notReady :: Harmony where
  "notReady =
     \<lparr>Harmony_ready = False,
      storedTokenList =
        [\<lparr>address = ''0xcF664087a5bB0237a0BAd6742852ec6c8d69A27a'', decimals = 18,
          symbol = ''WONE'', name = ''Wrapped ONE''\<rparr>]\<rparr>"

section \<open>Properties\<close>

lemma split_no_sep: "sep \<notin> set s \<Longrightarrow> split sep s = [s]"
  by (induction s) auto

lemma split_two:
  "sep \<notin> set a \<Longrightarrow> sep \<notin> set b \<Longrightarrow> split sep (a @ sep # b) = [a, b]"
  by (induction a) (auto simp: split_no_sep)

lemma isDigit_not_slash: "isDigit c \<Longrightarrow> c \<noteq> CHR ''/''"
  by (auto simp: isDigit_def)

lemma decimal_no_slash: "isDecimalString s \<Longrightarrow> CHR ''/'' \<notin> set s"
  by (auto simp: isDecimalString_def list_all_iff dest: isDigit_not_slash)

lemma overrides_nonce:
  "tx_nonce (overrides env gasPrice gasLimit result n maxFee maxTip) = n"
  by (simp add: overrides_def)












lemma init_ready:
  "ready (snd (init eh h this)) = (ready this \<or> fst (init eh h this) = Inr ())"
  by (simp add: init_def ready_def)

lemma factory_ready: "ready (snd (factory ask this)) = ready this"
  by (simp add: factory_def ready_def split: option.splits sum.splits)

lemma lifecycle_ready:
  "ready (snd (lifecycle eh cs this)) = (ready this \<or> Inr () \<in> set (fst (lifecycle eh cs this)))"
proof (induction cs arbitrary: this)
  case Nil
  then show ?case by simp
next
  case (Cons c cs)
  show ?case
  proof (cases c)
    case (Init h)
    show ?thesis
      using Cons.IH [of "snd (init eh h this)"] init_ready [of eh h this]
      by (auto simp: Init split: prod.splits)
  next
    case (Factory ask)
    show ?thesis
      using Cons.IH [of "snd (factory ask this)"] factory_ready [of ask this]
      by (auto simp: Factory split: prod.splits)
  qed
qed


lemma startsWith_append: "startsWith (a @ q) a"
  by (induction a) auto

lemma mentions_prefix: "mentions (a @ q) a"
  by (cases "a @ q") (use startsWith_append [of a q] in auto)

lemma mentions_append: "mentions (p @ a @ q) a"
  by (induction p) (auto simp: mentions_prefix)

subsection \<open>Slippage tolerance\<close>

text \<open>
  Claim C3. For every override string of the form N/D that the validator accepts, where
  N and D are runs of decimal digits, \<open>getAllowedSlippage\<close> returns the tolerance with
  numerator N and denominator D, whatever the configured default is; when D is not
  zero, this tolerance is the rational number N/D.
\<close>

theorem getAllowedSlippage_override:
  assumes "isDecimalString n" and "isDecimalString d"
    and "isFractionString env (n @ ''/'' @ d)"
  shows "getAllowedSlippage (env\<lparr>config_allowedSlippage := configured\<rparr>) (Some (n @ ''/'' @ d))
           = Inr \<lparr>numerator = int (decimal n), denominator = int (decimal d)\<rparr>
       \<and> (decimal d \<noteq> 0 \<longrightarrow>
            toRational \<lparr>numerator = int (decimal n), denominator = int (decimal d)\<rparr>
              = of_nat (decimal n) / of_nat (decimal d))"
  using assms
  by (simp add: getAllowedSlippage_def split_two decimal_no_slash UniswapPercent_def
      parseBigintIsh_def toRational_def)

theorem getAllowedSlippage_override_witness:
  "getAllowedSlippage (sampleSlippage ''2/100'') (Some ''1/100'')
     = Inr \<lparr>numerator = 1, denominator = 100\<rparr>
   \<and> getAllowedSlippage (sampleSlippage ''nonsense'') (Some ''1/100'')
     = Inr \<lparr>numerator = 1, denominator = 100\<rparr>
   \<and> toRational \<lparr>numerator = 1, denominator = 100\<rparr> = 1 / 100"
  using getAllowedSlippage_override [of "''1''" "''100''" "sampleSlippage ''x''" "''2/100''"]
    getAllowedSlippage_override [of "''1''" "''100''" "sampleSlippage ''x''" "''nonsense''"]
  by (simp add: sampleSlippage_def fractionParts_def isDecimalString_def isDigit_def
      decimal_def digitValue_def)

text \<open>
  Claim C4. For every configured default string that the percent pattern does not
  match, \<open>getAllowedSlippage\<close> called with no override, or with an override that the
  validator rejects, throws the error about the malformed configuration and returns no
  tolerance.
\<close>

theorem getAllowedSlippage_malformed:
  assumes "percentRegexp env (config_allowedSlippage env) = None"
    and "case override of None \<Rightarrow> True | Some s \<Rightarrow> \<not> isFractionString env s"
  shows "getAllowedSlippage env override = Inl (Error malformedPercent)
       \<and> (\<forall>p. getAllowedSlippage env override \<noteq> Inr p)"
  using assms
  by (auto simp: getAllowedSlippage_def configuredSlippage_def split: option.splits)

theorem getAllowedSlippage_malformed_witness:
  "getAllowedSlippage (sampleSlippage ''one percent'') None = Inl (Error malformedPercent)
   \<and> getAllowedSlippage (sampleSlippage ''one percent'') (Some ''0.01'')
       = Inl (Error malformedPercent)"
  using getAllowedSlippage_malformed [of "sampleSlippage ''one percent''" None]
    getAllowedSlippage_malformed [of "sampleSlippage ''one percent''" "Some ''0.01''"]
  by (simp add: sampleSlippage_def fractionParts_def isDecimalString_def isDigit_def)

subsection \<open>Execution\<close>





text \<open>
  Claim C10. A call of \<open>executeTrade\<close> with a nonce from the caller never asks the nonce
  manager for a nonce; it submits with the caller's nonce and, when the submission has
  returned, commits the caller's nonce for the wallet's address. A call that throws
  has committed nothing.
\<close>

theorem executeTrade_supplied_nonce:
  assumes run: "executeTrade senv env wallet t gasPrice router ttl abi gasLimit (Some k)
                  maxFee maxTip slip s = (res, s')"
  shows
    "acquired (made s s') = []
   \<and> (\<forall>b. Returned (GetNonce b) \<notin> set (made s s') \<and> Threw (GetNonce b) \<notin> set (made s s'))
   \<and> (case res of
        Inr tx \<Rightarrow>
          (\<exists>m as options.
             tx_nonce options = k
           \<and> made s s' = [Returned (ContractCall router m as options),
                           Returned (CommitNonce (wallet_address wallet) k)]
           \<and> committed (made s s') = [(wallet_address wallet, k)])
      | Inl e \<Rightarrow>
          committed (made s s') = []
        \<and> ((made s s' = [] \<and> s' = s)
           \<or> (\<exists>m as options.
                 tx_nonce options = k
               \<and> ((made s s' = [Threw (ContractCall router m as options)]
                    \<and> world s' = snd (contractCall env router abi wallet m as options (world s)))
                  \<or> made s s' = [Returned (ContractCall router m as options),
                                  Threw (CommitNonce (wallet_address wallet) k)]))))"
  using run
  unfolding executeTrade_def observe_def Let_def made_def
  by (auto split: sum.splits prod.splits simp: overrides_nonce)

theorem executeTrade_supplied_nonce_witness:
  "fst (executeTrade (sampleSlippage ''1/100'') sampleExec sampleWallet (1000, 9) 30
          ''0x3C8B'' 300 ''[]'' 3000000 (Some 9) None None None (sampleState True))
     = Inr ''0x5e1f''
   \<and> acquired (calls (snd (executeTrade (sampleSlippage ''1/100'') sampleExec sampleWallet
          (1000, 9) 30 ''0x3C8B'' 300 ''[]'' 3000000 (Some 9) None None None
          (sampleState True))))
     = []
   \<and> committed (calls (snd (executeTrade (sampleSlippage ''1/100'') sampleExec sampleWallet
          (1000, 9) 30 ''0x3C8B'' 300 ''[]'' 3000000 (Some 9) None None None
          (sampleState True))))
     = [(wallet_address sampleWallet, 9)]
   \<and> watermark (world (snd (executeTrade (sampleSlippage ''1/100'') sampleExec sampleWallet
          (1000, 9) 30 ''0x3C8B'' 300 ''[]'' 3000000 (Some 9) None None None
          (sampleState True))))
        (wallet_address sampleWallet) = 9"
  using executeTrade_supplied_nonce
      [of "sampleSlippage ''1/100''" sampleExec sampleWallet "(1000, 9)" 30 "''0x3C8B''" 300
          "''[]''" 3000000 9 None None None "sampleState True"
          "fst (executeTrade (sampleSlippage ''1/100'') sampleExec sampleWallet (1000, 9) 30
             ''0x3C8B'' 300 ''[]'' 3000000 (Some 9) None None None (sampleState True))"
          "snd (executeTrade (sampleSlippage ''1/100'') sampleExec sampleWallet (1000, 9) 30
             ''0x3C8B'' 300 ''[]'' 3000000 (Some 9) None None None (sampleState True))"]
  by (simp add: executeTrade_def observe_def overrides_def sampleExec_def sampleState_def
      sampleWallet_def getAllowedSlippage_def configuredSlippage_def UniswapPercent_def
      parseBigintIsh_def sampleSlippage_def fractionParts_def isDecimalString_def isDigit_def
      decimal_def digitValue_def made_def)

subsection \<open>The registry\<close>



subsection \<open>Initialisation and the token list\<close>

text \<open>
  Claim C6, as the code has it. For every connector object whose chain is \<open>harmony\<close>: if
  the chain client does not report itself ready, \<open>init\<close> throws the
  \<open>InitializationError\<close> with the message for \<open>HMY\<close> and the code
  \<open>SERVICE_UNITIALIZED_ERROR_CODE\<close>, and leaves the object as it was (the token list is
  not populated). For every connector object: \<open>ready()\<close> is false after construction,
  and after any run of \<open>init\<close> and \<open>factory()\<close> calls it is true exactly when one of the
  \<open>init\<close> calls has completed.
\<close>

theorem init_requires_ready_chain_client:
  "(p_chain this = ''harmony'' \<and> \<not> Harmony_ready h \<longrightarrow>
      init eh h this
        = (Inl (InitializationError (SERVICE_UNITIALIZED_ERROR_MESSAGE eh ''HMY'')
                  (SERVICE_UNITIALIZED_ERROR_CODE eh)), this))
   \<and> \<not> ready (Defira_new config abi chain network)
   \<and> (ready (snd (lifecycle eh cs (Defira_new config abi chain network)))
        \<longleftrightarrow> Inr () \<in> set (fst (lifecycle eh cs (Defira_new config abi chain network))))"
  using lifecycle_ready [of eh cs "Defira_new config abi chain network"]
  by (simp add: init_def) (simp add: ready_def Defira_new_def)

theorem init_requires_ready_chain_client_witness:
  "init sampleErrors notReady (Defira_new sampleConfig ''[]'' ''harmony'' ''mainnet'')
     = (Inl (InitializationError ''HMY was called before being initialized.'' 1003),
        Defira_new sampleConfig ''[]'' ''harmony'' ''mainnet'')
   \<and> \<not> ready (snd (lifecycle sampleErrors [Init notReady]
                     (Defira_new sampleConfig ''[]'' ''harmony'' ''mainnet'')))
   \<and> ready (snd (lifecycle sampleErrors
                   [Init notReady, Init (notReady\<lparr>Harmony_ready := True\<rparr>)]
                   (Defira_new sampleConfig ''[]'' ''harmony'' ''mainnet'')))"
  using init_requires_ready_chain_client
      [of "Defira_new sampleConfig ''[]'' ''harmony'' ''mainnet''" notReady sampleErrors
          sampleConfig "''[]''" "''harmony''" "''mainnet''" "[Init notReady]"]
    init_requires_ready_chain_client
      [of "Defira_new sampleConfig ''[]'' ''harmony'' ''mainnet''" notReady sampleErrors
          sampleConfig "''[]''" "''harmony''" "''mainnet''"
          "[Init notReady, Init (notReady\<lparr>Harmony_ready := True\<rparr>)]"]
  by (simp add: init_def Defira_new_def notReady_def sampleErrors_def)

text \<open>
  Claim C6 as it was stated fails for a connector object of another chain: the guard of
  \<open>init\<close> asks the chain client only when the chain is \<open>harmony\<close>. With a chain client
  that is not ready, \<open>init\<close> on such an object returns, populates the token list and
  makes \<open>ready()\<close> true.
\<close>

theorem init_other_chain_counterexample:
  "\<not> Harmony_ready notReady
   \<and> fst (init sampleErrors notReady (Defira_new sampleConfig ''[]'' ''ethereum'' ''mainnet''))
       = Inr ()
   \<and> ready (snd (init sampleErrors notReady
                   (Defira_new sampleConfig ''[]'' ''ethereum'' ''mainnet'')))
   \<and> getTokenByAddress
        (snd (init sampleErrors notReady (Defira_new sampleConfig ''[]'' ''ethereum'' ''mainnet'')))
        ''0xcF664087a5bB0237a0BAd6742852ec6c8d69A27a''
       = Some \<lparr>address = ''0xcF664087a5bB0237a0BAd6742852ec6c8d69A27a'', decimals = 18,
               symbol = ''WONE'', name = ''Wrapped ONE'', chainId = 1666600000\<rparr>"
  by (simp add: init_def Defira_new_def notReady_def ready_def getTokenByAddress_def
      newToken_def sampleConfig_def)



subsection \<open>Quotes\<close>

text \<open>What the two estimate functions throw when the search finds no trade. The message
  of \<open>estimateBuyTrade\<close> is built from the two addresses; the message of
  \<open>estimateSellTrade\<close> is built from the two token objects, and is the same for all
  tokens.\<close>

lemma estimateSellTrade_no_trade:
  assumes "UniswapTokenAmount lib baseToken amount = Inr native"
    and "fetchPairData lib quoteToken baseToken w = Inr pair"
    and "bestTradeExactIn lib [pair] native quoteToken \<lparr>maxHops = 1\<rparr> = Inr None
       \<or> bestTradeExactIn lib [pair] native quoteToken \<lparr>maxHops = 1\<rparr> = Inr (Some [])"
  shows "estimateSellTrade senv lib baseToken quoteToken amount slip w
           = Inl (UniswapishPriceError
                   ''priceSwapIn: no trade pair found for [object Object] to [object Object].'')"
  using assms by (auto simp: estimateSellTrade_def toString_def)

lemma estimateBuyTrade_no_trade:
  assumes "UniswapTokenAmount lib baseToken amount = Inr native"
    and "fetchPairData lib quoteToken baseToken w = Inr pair"
    and "bestTradeExactOut lib [pair] quoteToken native \<lparr>maxHops = 1\<rparr> = Inr None
       \<or> bestTradeExactOut lib [pair] quoteToken native \<lparr>maxHops = 1\<rparr> = Inr (Some [])"
  shows "\<exists>msg. estimateBuyTrade senv lib quoteToken baseToken amount slip w
                 = Inl (UniswapishPriceError msg)
             \<and> mentions msg (address quoteToken) \<and> mentions msg (address baseToken)"
proof -
  let ?msg = "''priceSwapOut: no trade pair found for '' @ address quoteToken @ '' to ''
                @ address baseToken @ ''.''"
  have "estimateBuyTrade senv lib quoteToken baseToken amount slip w
          = Inl (UniswapishPriceError ?msg)"
    using assms by (auto simp: estimateBuyTrade_def)
  moreover have "mentions ?msg (address quoteToken)"
    by (rule mentions_append)
  moreover have "mentions ?msg (address baseToken)"
    using mentions_append
      [of "''priceSwapOut: no trade pair found for '' @ address quoteToken @ '' to ''"
          "address baseToken" "''.''"]
    by simp
  ultimately show ?thesis by blast
qed

text \<open>
  Claim C5, on a pool without liquidity, where the search returns the empty list. Both
  functions throw the price error and build no expected trade. The message of
  \<open>estimateBuyTrade\<close> names the two addresses. The message of \<open>estimateSellTrade\<close> names
  neither: each token is rendered as \<open>[object Object]\<close>.
\<close>

theorem sell_message_names_no_address:
  "estimateSellTrade (sampleSlippage ''1/100'') sampleSdk WONE USDC 1000 None (Some (0, 0))
     = Inl (UniswapishPriceError
             ''priceSwapIn: no trade pair found for [object Object] to [object Object].'')
   \<and> \<not> mentions ''priceSwapIn: no trade pair found for [object Object] to [object Object].''
          (address WONE)
   \<and> \<not> mentions ''priceSwapIn: no trade pair found for [object Object] to [object Object].''
          (address USDC)
   \<and> estimateBuyTrade (sampleSlippage ''1/100'') sampleSdk USDC WONE 1000 None (Some (0, 0))
     = Inl (UniswapishPriceError
             (''priceSwapOut: no trade pair found for ''
                @ ''0x985458E523dB3d53125813eD68c274899e9DfAb4'' @ '' to ''
                @ ''0xcF664087a5bB0237a0BAd6742852ec6c8d69A27a'' @ ''.''))"
  by (simp add: estimateSellTrade_def estimateBuyTrade_def sampleSdk_def toString_def
      WONE_def USDC_def)

text \<open>
  Claim C7. \<open>estimateSellTrade\<close> returns an expected trade exactly when the token amount
  is built, the pair is fetched, the search for the best exact-input trades over that
  one pair with hop limit 1 returns a non-empty list, the slippage tolerance is
  resolved, and the first trade's \<open>minimumAmountOut\<close> under that tolerance returns; the
  result is that first trade with that amount. \<open>estimateBuyTrade\<close> does the same with
  the search for exact-output trades and the first trade's \<open>maximumAmountIn\<close>.
\<close>

theorem estimate_expected_amount:
  "(estimateSellTrade senv lib baseToken quoteToken amount slip w = Inr r \<longleftrightarrow>
      (\<exists>native pair rest tolerance.
          UniswapTokenAmount lib baseToken amount = Inr native
        \<and> fetchPairData lib quoteToken baseToken w = Inr pair
        \<and> bestTradeExactIn lib [pair] native quoteToken \<lparr>maxHops = 1\<rparr>
            = Inr (Some (trade r # rest))
        \<and> getAllowedSlippage senv slip = Inr tolerance
        \<and> minimumAmountOut lib (trade r) tolerance = Inr (expectedAmount r)))
   \<and> (estimateBuyTrade senv lib quoteToken baseToken amount slip w = Inr r \<longleftrightarrow>
      (\<exists>native pair rest tolerance.
          UniswapTokenAmount lib baseToken amount = Inr native
        \<and> fetchPairData lib quoteToken baseToken w = Inr pair
        \<and> bestTradeExactOut lib [pair] quoteToken native \<lparr>maxHops = 1\<rparr>
            = Inr (Some (trade r # rest))
        \<and> getAllowedSlippage senv slip = Inr tolerance
        \<and> maximumAmountIn lib (trade r) tolerance = Inr (expectedAmount r)))"
  unfolding estimateSellTrade_def estimateBuyTrade_def
  by (auto split: sum.splits option.splits list.splits)

theorem estimate_expected_amount_witness:
  "estimateSellTrade (sampleSlippage ''1/100'') sampleSdk WONE USDC 1000 None
       (Some (1000000, 100000000))
     = Inr \<lparr>trade = (1000, 9), expectedAmount = 8\<rparr>
   \<and> estimateBuyTrade (sampleSlippage ''1/100'') sampleSdk USDC WONE 1000 None
       (Some (1000000, 100000000))
     = Inr \<lparr>trade = (11, 1000), expectedAmount = 11\<rparr>"
  using estimate_expected_amount
      [of "sampleSlippage ''1/100''" sampleSdk WONE USDC 1000 None
          "Some (1000000, 100000000)" "\<lparr>trade = (1000, 9), expectedAmount = 8\<rparr>"]
  by (simp add: estimateSellTrade_def estimateBuyTrade_def sampleSdk_def
      getAllowedSlippage_def configuredSlippage_def UniswapPercent_def
      parseBigintIsh_def sampleSlippage_def fractionParts_def isDecimalString_def isDigit_def
      decimal_def digitValue_def)

end
